theory Spec2Isabelle
  imports Complex_Main "HOL-Library.Log_Nat"
begin

section \<open>Numbers\<close>

text \<open>
  The program computes with JavaScript numbers, which are binary64 floating-point numbers.
  The arguments the functions receive are finite numbers (the callers replace an input that
  does not parse by 0), and they are modelled as \<open>real\<close>.

  A division whose divisor the source does not test can divide by zero, and JavaScript
  then returns \<open>Infinity\<close>, \<open>-Infinity\<close> or \<open>NaN\<close> where HOL would return 0.
  Such results have the type \<open>jsnum\<close>, whose operations follow the language on the three
  special values. Where the source tests the divisor first, the model divides in \<open>real\<close>.

  The position sizer takes the floor of a quotient, and what it returns depends on how the
  quotient is rounded. Its arithmetic is modelled as the language computes it: every product
  and quotient is rounded to the nearest binary64 number (\<open>f64_mul\<close>, \<open>f64_div\<close>).
  In the other functions the arithmetic on finite values is exact. The sign of a zero is
  not part of the model.
\<close>

datatype jsnum = Fin real | PosInf | NegInf | NaN

fun js_sub :: "jsnum \<Rightarrow> jsnum \<Rightarrow> jsnum" where
  "js_sub NaN _ = NaN"
| "js_sub _ NaN = NaN"
| "js_sub (Fin a) (Fin b) = Fin (a - b)"
| "js_sub (Fin a) PosInf = NegInf"
| "js_sub (Fin a) NegInf = PosInf"
| "js_sub PosInf PosInf = NaN"
| "js_sub PosInf _ = PosInf"
| "js_sub NegInf NegInf = NaN"
| "js_sub NegInf _ = NegInf"

fun js_mul :: "jsnum \<Rightarrow> jsnum \<Rightarrow> jsnum" where
  "js_mul NaN _ = NaN"
| "js_mul _ NaN = NaN"
| "js_mul (Fin a) (Fin b) = Fin (a * b)"
| "js_mul (Fin a) PosInf = (if a > 0 then PosInf else if a < 0 then NegInf else NaN)"
| "js_mul (Fin a) NegInf = (if a > 0 then NegInf else if a < 0 then PosInf else NaN)"
| "js_mul PosInf (Fin b) = (if b > 0 then PosInf else if b < 0 then NegInf else NaN)"
| "js_mul NegInf (Fin b) = (if b > 0 then NegInf else if b < 0 then PosInf else NaN)"
| "js_mul PosInf PosInf = PosInf"
| "js_mul PosInf NegInf = NegInf"
| "js_mul NegInf PosInf = NegInf"
| "js_mul NegInf NegInf = PosInf"

fun js_div :: "jsnum \<Rightarrow> jsnum \<Rightarrow> jsnum" where
  "js_div NaN _ = NaN"
| "js_div _ NaN = NaN"
| "js_div (Fin a) (Fin b) =
     (if b \<noteq> 0 then Fin (a / b)
      else if a > 0 then PosInf else if a < 0 then NegInf else NaN)"
| "js_div (Fin a) _ = Fin 0"
| "js_div PosInf (Fin b) = (if b \<ge> 0 then PosInf else NegInf)"
| "js_div NegInf (Fin b) = (if b \<ge> 0 then NegInf else PosInf)"
| "js_div _ _ = NaN"

text \<open>\<open>Math.min\<close> and \<open>Math.max\<close>: \<open>NaN\<close> if an argument is \<open>NaN\<close>.\<close>

fun js_min :: "jsnum \<Rightarrow> jsnum \<Rightarrow> jsnum" where
  "js_min NaN _ = NaN"
| "js_min _ NaN = NaN"
| "js_min NegInf _ = NegInf"
| "js_min _ NegInf = NegInf"
| "js_min PosInf y = y"
| "js_min x PosInf = x"
| "js_min (Fin a) (Fin b) = Fin (min a b)"

fun js_max :: "jsnum \<Rightarrow> jsnum \<Rightarrow> jsnum" where
  "js_max NaN _ = NaN"
| "js_max _ NaN = NaN"
| "js_max PosInf _ = PosInf"
| "js_max _ PosInf = PosInf"
| "js_max NegInf y = y"
| "js_max x NegInf = x"
| "js_max (Fin a) (Fin b) = Fin (max a b)"

text \<open>The comparison \<open>x >= y\<close>: false if an argument is \<open>NaN\<close>.\<close>

fun js_ge :: "jsnum \<Rightarrow> jsnum \<Rightarrow> bool" where
  "js_ge NaN _ = False"
| "js_ge _ NaN = False"
| "js_ge (Fin a) (Fin b) = (a \<ge> b)"
| "js_ge PosInf _ = True"
| "js_ge _ NegInf = True"
| "js_ge _ _ = False"



subsection \<open>Rounding to binary64\<close>








section \<open>Types (types/trading.ts)\<close>

datatype Side = LONG | SHORT

datatype Status = OPEN | CLOSED | CANCELLED

text \<open>An optional field (\<open>exitPrice?\<close>, \<open>pnl?\<close>, \<open>notes?\<close>) is an \<open>option\<close>:
  \<open>None\<close> is \<open>undefined\<close>. The fields \<open>id\<close> and \<open>notes\<close> are named
  \<open>tradeId\<close> and \<open>tradeNotes\<close>.\<close>

record Trade =
  tradeId :: string
  date :: string
  instrument :: string
  side :: Side
  entryPrice :: real
  stopLoss :: real
  target :: real
  quantity :: real
  exitPrice :: "real option"
  pnl :: "real option"
  riskReward :: real
  status :: Status
  tradeNotes :: "string option"

record RiskLimits =
  riskPerTrade :: real
  dailyLossLimit :: real
  weeklyLossLimit :: real
  monthlyLossLimit :: real

record PortfolioState =
  capital :: real
  leverage :: real
  effectiveCapital :: real
  currentEquity :: real
  peakEquity :: real
  dailyPnL :: real
  weeklyPnL :: real
  monthlyPnL :: real
  drawdown :: real
  maxDrawdown :: real
  isTradingLocked :: bool
  lockReason :: "string option"

text \<open>The fields of the result of the position sizer are the binary64 numbers it computes;
  \<open>marginRequired\<close>, the quotient by \<open>leverage\<close>, is not finite for a zero \<open>leverage\<close>.\<close>

record PositionSizeResult =
  quantity :: jsnum
  positionSize :: jsnum
  marginRequired :: jsnum
  maxLoss :: jsnum
  maxProfit :: jsnum
  riskAmount :: jsnum

datatype StreakType = WIN | LOSS | NONE

text \<open>\<open>profitFactor\<close> can be \<open>Infinity\<close>.\<close>

record PerformanceMetrics =
  totalTrades :: nat
  winningTrades :: nat
  losingTrades :: nat
  winRate :: real
  avgWin :: real
  avgLoss :: real
  expectancy :: real
  profitFactor :: jsnum
  maxWinStreak :: nat
  maxLossStreak :: nat
  currentStreak :: nat
  streakType :: StreakType

record CompoundingProjection =
  month :: int
  capital :: real
  profit :: real
  cumulativeProfit :: real

text \<open>
  The messages of the validator are template strings that print numbers
  (with \<open>toFixed(2)\<close> or as they are). A message is modelled by its template, one constructor
  each, with the values the template prints.
\<close>

datatype message =
    RiskRewardBelowMinimum real
  | RiskExceedsLimit real real
  | DailyLossLimitBreached real
  | WeeklyLossLimitBreached real
  | MonthlyLossLimitBreached real
  | DrawdownElevated real
  | DrawdownExceedsMaximum real
  | TradingIsLocked "string option"

record ValidationResult =
  isValid :: bool
  errors :: "message list"
  warnings :: "message list"

text \<open>The two \<open>Date\<close> fields are times in milliseconds; the start time of the default
  session, the time at which the module is loaded, is taken as 0.\<close>

record SessionState =
  startTime :: int
  isActive :: bool
  tradesCount :: nat
  cooldownEndTime :: "int option"
  consecutiveLosses :: nat

section \<open>The risk engine (lib/riskEngine.ts)\<close>

text \<open>
  A parameter that has the name of a record field is bound by a \<open>\<lambda>\<close>, so that the
  body keeps the names of the source.
\<close>

definition DEFAULT_RISK_LIMITS :: RiskLimits where
  "DEFAULT_RISK_LIMITS =
     \<lparr>riskPerTrade = 1, dailyLossLimit = 3, weeklyLossLimit = 6, monthlyLossLimit = 12\<rparr>"


definition calculateDrawdown :: "real \<Rightarrow> real \<Rightarrow> real" where
  "calculateDrawdown = (\<lambda>currentEquity peakEquity.
     if peakEquity \<le> 0 then 0
     else ((peakEquity - currentEquity) / peakEquity) * 100)"

definition validateTrade :: "real \<Rightarrow> real \<Rightarrow> RiskLimits \<Rightarrow> PortfolioState \<Rightarrow> ValidationResult" where
  "validateTrade = (\<lambda>riskReward riskPercent limits portfolio.
     let errors = [];
         warnings = [];
         errors = (if riskReward < 2
                   then errors @ [RiskRewardBelowMinimum riskReward] else errors);
         errors = (if riskPercent > riskPerTrade limits
                   then errors @ [RiskExceedsLimit riskPercent (riskPerTrade limits)] else errors);
         dailyLossPercent =
           js_mul (js_div (Fin \<bar>dailyPnL portfolio\<bar>) (Fin (PortfolioState.capital portfolio))) (Fin 100);
         errors = (if dailyPnL portfolio < 0 \<and> js_ge dailyLossPercent (Fin (dailyLossLimit limits))
                   then errors @ [DailyLossLimitBreached (dailyLossLimit limits)] else errors);
         weeklyLossPercent =
           js_mul (js_div (Fin \<bar>weeklyPnL portfolio\<bar>) (Fin (PortfolioState.capital portfolio))) (Fin 100);
         errors = (if weeklyPnL portfolio < 0 \<and> js_ge weeklyLossPercent (Fin (weeklyLossLimit limits))
                   then errors @ [WeeklyLossLimitBreached (weeklyLossLimit limits)] else errors);
         monthlyLossPercent =
           js_mul (js_div (Fin \<bar>monthlyPnL portfolio\<bar>) (Fin (PortfolioState.capital portfolio))) (Fin 100);
         errors = (if monthlyPnL portfolio < 0 \<and> js_ge monthlyLossPercent (Fin (monthlyLossLimit limits))
                   then errors @ [MonthlyLossLimitBreached (monthlyLossLimit limits)] else errors);
         warnings = (if drawdown portfolio > 10
                     then warnings @ [DrawdownElevated (drawdown portfolio)] else warnings);
         errors = (if drawdown portfolio > 20
                   then errors @ [DrawdownExceedsMaximum (drawdown portfolio)] else errors);
         errors = (if isTradingLocked portfolio
                   then errors @ [TradingIsLocked (lockReason portfolio)] else errors)
     in \<lparr>isValid = (length errors = 0), errors = errors, warnings = warnings\<rparr>)"

text \<open>\<open>lossRatio\<close> is finite, since \<open>avgLoss\<close> is not 0 there; it can be 0, and the
  division by it is not tested.\<close>

definition calculateKellyCriterion :: "real \<Rightarrow> real \<Rightarrow> real \<Rightarrow> jsnum" where
  "calculateKellyCriterion = (\<lambda>winRate avgWin avgLoss.
     if avgLoss = 0 \<or> winRate = 0 \<or> winRate = 1 then Fin 0
     else
       let winProbability = winRate / 100;
           lossRatio = avgWin / avgLoss;
           kelly = js_sub (Fin winProbability) (js_div (Fin (1 - winProbability)) (Fin lossRatio))
       in js_max (Fin 0) (js_min (js_mul kelly (Fin 50)) (Fin 25)))"

text \<open>\<open>t.pnl ?? 0\<close>\<close>

definition pnl_or_0 :: "Trade \<Rightarrow> real" where
  "pnl_or_0 t = (case pnl t of None \<Rightarrow> 0 | Some p \<Rightarrow> p)"

text \<open>
  The body of the \<open>forEach\<close> that counts the streaks, on the four variables
  \<open>(maxWinStreak, maxLossStreak, currentWinStreak, currentLossStreak)\<close>.
\<close>

definition streak_step :: "nat \<times> nat \<times> nat \<times> nat \<Rightarrow> Trade \<Rightarrow> nat \<times> nat \<times> nat \<times> nat" where
  "streak_step = (\<lambda>(maxWinStreak, maxLossStreak, currentWinStreak, currentLossStreak) trade.
     if pnl_or_0 trade > 0 then
       let currentWinStreak = currentWinStreak + 1;
           currentLossStreak = 0;
           maxWinStreak = max maxWinStreak currentWinStreak
       in (maxWinStreak, maxLossStreak, currentWinStreak, currentLossStreak)
     else
       let currentLossStreak = currentLossStreak + 1;
           currentWinStreak = 0;
           maxLossStreak = max maxLossStreak currentLossStreak
       in (maxWinStreak, maxLossStreak, currentWinStreak, currentLossStreak))"

text \<open>\<open>closedTrades[closedTrades.length - 1]\<close>, \<open>undefined\<close> on the empty list.\<close>

definition last_trade :: "Trade list \<Rightarrow> Trade option" where
  "last_trade ts = (if ts = [] then None else Some (last ts))"

definition calculatePerformanceMetrics :: "Trade list \<Rightarrow> PerformanceMetrics" where
  "calculatePerformanceMetrics trades =
    (let closedTrades = filter (\<lambda>t. status t = CLOSED \<and> pnl t \<noteq> None) trades in
     if length closedTrades = 0 then
       \<lparr>totalTrades = 0, winningTrades = 0, losingTrades = 0, winRate = 0, avgWin = 0,
        avgLoss = 0, expectancy = 0, profitFactor = Fin 0, maxWinStreak = 0,
        maxLossStreak = 0, currentStreak = 0, streakType = NONE\<rparr>
     else
       let winningTrades = filter (\<lambda>t. pnl_or_0 t > 0) closedTrades;
           losingTrades = filter (\<lambda>t. pnl_or_0 t < 0) closedTrades;
           totalWins = foldl (\<lambda>sum t. sum + pnl_or_0 t) 0 winningTrades;
           totalLosses = \<bar>foldl (\<lambda>sum t. sum + pnl_or_0 t) 0 losingTrades\<bar>;
           avgWin = (if length winningTrades > 0 then totalWins / real (length winningTrades) else 0);
           avgLoss = (if length losingTrades > 0 then totalLosses / real (length losingTrades) else 0);
           winRate = (real (length winningTrades) / real (length closedTrades)) * 100;
           expectancy = avgWin * (winRate / 100) - avgLoss * (1 - winRate / 100);
           profitFactor = (if totalLosses > 0 then Fin (totalWins / totalLosses)
                           else if totalWins > 0 then PosInf else Fin 0);
           (maxWinStreak, maxLossStreak, currentWinStreak, currentLossStreak) =
             foldl streak_step (0, 0, 0, 0) closedTrades;
           lastTrade = last_trade closedTrades;
           streakType =
             (case lastTrade of
                None \<Rightarrow> NONE
              | Some t \<Rightarrow> if pnl_or_0 t > 0 then WIN else if pnl_or_0 t < 0 then LOSS else NONE);
           currentStreak = (if streakType = WIN then currentWinStreak
                            else if streakType = LOSS then currentLossStreak else 0)
       in \<lparr>totalTrades = length closedTrades,
           winningTrades = length winningTrades,
           losingTrades = length losingTrades,
           winRate = winRate,
           avgWin = avgWin,
           avgLoss = avgLoss,
           expectancy = expectancy,
           profitFactor = profitFactor,
           maxWinStreak = maxWinStreak,
           maxLossStreak = maxLossStreak,
           currentStreak = currentStreak,
           streakType = streakType\<rparr>)"

text \<open>
  The \<open>for\<close> loop of \<open>calculateCompounding\<close>: \<open>m\<close> is the loop variable
  \<open>month\<close>, \<open>cap\<close> and \<open>cum\<close> are the variables \<open>capital\<close> and
  \<open>cumulativeProfit\<close>, and \<open>projections.push\<close> appends to the list.
\<close>

function compounding_loop ::
  "int \<Rightarrow> int \<Rightarrow> real \<Rightarrow> real \<Rightarrow> real \<Rightarrow> CompoundingProjection list \<Rightarrow> CompoundingProjection list" where
  "compounding_loop m months monthlyReturnPercent cap cum projections =
     (if m \<le> months then
        let profit = cap * (monthlyReturnPercent / 100);
            cap = cap + profit;
            cum = cum + profit
        in compounding_loop (m + 1) months monthlyReturnPercent cap cum
             (projections @ [\<lparr>month = m, capital = cap, profit = profit, cumulativeProfit = cum\<rparr>])
      else projections)"
  by pat_completeness auto
termination
  by (relation "measure (\<lambda>(m, months, r, cap, cum, ps). nat (months + 1 - m))") auto

declare compounding_loop.simps [simp del]

definition calculateCompounding :: "real \<Rightarrow> real \<Rightarrow> int \<Rightarrow> CompoundingProjection list" where
  "calculateCompounding startCapital monthlyReturnPercent months =
     compounding_loop 1 months monthlyReturnPercent startCapital 0 []"

definition getAdjustedRiskForDrawdown :: "real \<Rightarrow> real \<Rightarrow> real" where
  "getAdjustedRiskForDrawdown baseRisk drawdownPercent =
     (if drawdownPercent < 5 then baseRisk
      else if drawdownPercent < 10 then baseRisk * 0.75
      else if drawdownPercent < 15 then baseRisk * 0.5
      else if drawdownPercent < 20 then baseRisk * 0.25
      else 0)"

section \<open>The application state (context/TradingContext.tsx)\<close>

text \<open>
  \<open>Partial<PortfolioState>\<close>: every key is optional. The field \<open>opt_k\<close> is \<open>None\<close>
  when the object has no key \<open>k\<close>; \<open>no_updates\<close> is the object \<open>{}\<close>.
\<close>

record PartialPortfolioState =
  opt_capital :: "real option"
  opt_leverage :: "real option"
  opt_effectiveCapital :: "real option"
  opt_currentEquity :: "real option"
  opt_peakEquity :: "real option"
  opt_dailyPnL :: "real option"
  opt_weeklyPnL :: "real option"
  opt_monthlyPnL :: "real option"
  opt_drawdown :: "real option"
  opt_maxDrawdown :: "real option"
  opt_isTradingLocked :: "bool option"
  opt_lockReason :: "string option option"

definition no_updates :: PartialPortfolioState where
  "no_updates =
     \<lparr>opt_capital = None, opt_leverage = None, opt_effectiveCapital = None,
      opt_currentEquity = None, opt_peakEquity = None, opt_dailyPnL = None,
      opt_weeklyPnL = None, opt_monthlyPnL = None, opt_drawdown = None,
      opt_maxDrawdown = None, opt_isTradingLocked = None, opt_lockReason = None\<rparr>"

text \<open>The object spread \<open>{ ...prev, ...updates }\<close>: a key of \<open>updates\<close> wins.\<close>

definition override :: "'a \<Rightarrow> 'a option \<Rightarrow> 'a" where
  "override old new = (case new of None \<Rightarrow> old | Some v \<Rightarrow> v)"

definition spread :: "PortfolioState \<Rightarrow> PartialPortfolioState \<Rightarrow> PortfolioState" where
  "spread prev updates =
     \<lparr>PortfolioState.capital = override (PortfolioState.capital prev) (opt_capital updates),
      leverage = override (leverage prev) (opt_leverage updates),
      effectiveCapital = override (effectiveCapital prev) (opt_effectiveCapital updates),
      currentEquity = override (currentEquity prev) (opt_currentEquity updates),
      peakEquity = override (peakEquity prev) (opt_peakEquity updates),
      dailyPnL = override (dailyPnL prev) (opt_dailyPnL updates),
      weeklyPnL = override (weeklyPnL prev) (opt_weeklyPnL updates),
      monthlyPnL = override (monthlyPnL prev) (opt_monthlyPnL updates),
      drawdown = override (drawdown prev) (opt_drawdown updates),
      maxDrawdown = override (maxDrawdown prev) (opt_maxDrawdown updates),
      isTradingLocked = override (isTradingLocked prev) (opt_isTradingLocked updates),
      lockReason = override (lockReason prev) (opt_lockReason updates)\<rparr>"

definition DEFAULT_PORTFOLIO :: PortfolioState where
  "DEFAULT_PORTFOLIO =
     \<lparr>PortfolioState.capital = 100000, leverage = 1, effectiveCapital = 100000,
      currentEquity = 100000, peakEquity = 100000, dailyPnL = 0, weeklyPnL = 0,
      monthlyPnL = 0, drawdown = 0, maxDrawdown = 0, isTradingLocked = False,
      lockReason = None\<rparr>"

text \<open>The function that \<open>updatePortfolio\<close> passes to \<open>setPortfolio\<close>, from the
  previous state to the next.\<close>

definition updatePortfolio :: "PartialPortfolioState \<Rightarrow> PortfolioState \<Rightarrow> PortfolioState" where
  "updatePortfolio updates prev =
     (let updated = spread prev updates;
          updated = updated\<lparr>effectiveCapital := PortfolioState.capital updated * leverage updated\<rparr>;
          updated = updated\<lparr>drawdown := calculateDrawdown (currentEquity updated) (peakEquity updated)\<rparr>;
          updated = updated\<lparr>maxDrawdown := max (maxDrawdown updated) (drawdown updated)\<rparr>;
          updated = (if currentEquity updated > peakEquity updated
                     then updated\<lparr>peakEquity := currentEquity updated\<rparr> else updated)
      in updated)"

definition lockTrading :: "string \<Rightarrow> PortfolioState \<Rightarrow> PortfolioState" where
  "lockTrading reason prev = prev\<lparr>isTradingLocked := True, lockReason := Some reason\<rparr>"

text \<open>
  The state of the provider that \<open>closeTrade\<close> reads and writes. The state updates that
  \<open>closeTrade\<close> queues are run once each, in the order in which they are queued, and the
  \<open>portfolio\<close> that the callback has captured is the portfolio of the state.
\<close>

record AppState =
  portfolio :: PortfolioState
  trades :: "Trade list"
  session :: SessionState

definition closeTrade :: "string \<Rightarrow> real \<Rightarrow> AppState \<Rightarrow> AppState" where
  "closeTrade = (\<lambda>id exitPrice st.
     let prev = map (\<lambda>t.
                  if tradeId t \<noteq> id then t
                  else
                    let pnl = (if side t = LONG
                               then (exitPrice - entryPrice t) * Trade.quantity t
                               else (entryPrice t - exitPrice) * Trade.quantity t)
                    in t\<lparr>exitPrice := Some exitPrice, pnl := Some pnl, status := CLOSED\<rparr>)
                (trades st);
         st = st\<lparr>trades := prev\<rparr>;
         trade = find (\<lambda>t. tradeId t = id) prev
     in case trade of
          None \<Rightarrow> st
        | Some trade \<Rightarrow>
            (case pnl trade of
               None \<Rightarrow> st
             | Some trade_pnl \<Rightarrow>
                 if trade_pnl \<noteq> 0 then
                   let st = st\<lparr>portfolio := updatePortfolio
                              (no_updates\<lparr>opt_dailyPnL := Some (dailyPnL (portfolio st) + trade_pnl),
                                          opt_weeklyPnL := Some (weeklyPnL (portfolio st) + trade_pnl),
                                          opt_monthlyPnL := Some (monthlyPnL (portfolio st) + trade_pnl),
                                          opt_currentEquity := Some (currentEquity (portfolio st) + trade_pnl)\<rparr>)
                              (portfolio st)\<rparr>
                   in if trade_pnl < 0 then
                        let newLosses = consecutiveLosses (session st) + 1;
                            st = (if newLosses \<ge> 3
                                  then st\<lparr>portfolio :=
                                         lockTrading ''3 consecutive losses - mandatory cooldown'' (portfolio st)\<rparr>
                                  else st)
                        in st\<lparr>session := (session st)\<lparr>consecutiveLosses := newLosses\<rparr>\<rparr>
                      else st\<lparr>session := (session st)\<lparr>consecutiveLosses := 0\<rparr>\<rparr>
                 else st))"

definition DEFAULT_SESSION :: SessionState where
  "DEFAULT_SESSION =
     \<lparr>startTime = 0, isActive = False, tradesCount = 0, cooldownEndTime = None,
      consecutiveLosses = 0\<rparr>"

section \<open>What the specification says of the projection, and sample trades\<close>

text \<open>
  The compounding rule in the words of the specification: from the capital \<open>cap\<close> and
  the cumulated profit \<open>cum\<close>, each snapshot has
  \<open>profit = capital \<times> rate / 100\<close>, the capital grown by that profit and the
  cumulated profit grown by it, and the next snapshot starts from these.
\<close>

fun compounds_from :: "real \<Rightarrow> real \<Rightarrow> real \<Rightarrow> CompoundingProjection list \<Rightarrow> bool" where
  "compounds_from r cap cum [] = True"
| "compounds_from r cap cum (x # xs) =
     (profit x = cap * r / 100 \<and>
      CompoundingProjection.capital x = cap + profit x \<and>
      cumulativeProfit x = cum + profit x \<and>
      compounds_from r (CompoundingProjection.capital x) (cumulativeProfit x) xs)"

text \<open>A long trade of 10 units entered at 100: still open, and closed with the
  profit or loss \<open>p\<close>.\<close>

definition open_trade :: Trade where
  "open_trade =
     \<lparr>tradeId = ''t1'', date = ''2024-01-01'', instrument = ''NIFTY'', side = LONG,
      entryPrice = 100, stopLoss = 95, target = 110, quantity = 10, exitPrice = None,
      pnl = None, riskReward = 2, status = OPEN, tradeNotes = None\<rparr>"

definition closed_trade :: "real \<Rightarrow> Trade" where
  "closed_trade p =
     open_trade\<lparr>exitPrice := Some (100 + p / 10), pnl := Some p, status := CLOSED\<rparr>"

section \<open>The Kelly sizer\<close>

text \<open>The guards that the source does have: a zero \<open>avgLoss\<close> or a zero \<open>winRate\<close>
  returns 0.\<close>

lemma calculateKellyCriterion_guarded:
  "al = 0 \<or> w = 0 \<Longrightarrow> calculateKellyCriterion w aw al = Fin 0"
  by (auto simp: calculateKellyCriterion_def)

text \<open>
  Claim C1: \<open>calculateKellyCriterion\<close> returns exactly 0 whenever \<open>avgLoss = 0\<close>, or
  \<open>winRate = 0\<close>, or \<open>winRate = 100\<close>. The third guard of the source compares
  \<open>winRate\<close> with 1, not with 100, although \<open>winRate\<close> is a percentage (it is divided
  by 100 on the next line). At \<open>winRate = 100\<close>, \<open>avgWin = 200\<close>, \<open>avgLoss = 100\<close>
  no guard applies: \<open>kelly\<close> is 1 and the function returns the cap, 25.
\<close>

theorem calculateKellyCriterion_winRate_100:
  "calculateKellyCriterion 100 200 100 = Fin 25"
  by (simp add: calculateKellyCriterion_def)

text \<open>
  Claim C8: the value that \<open>calculateKellyCriterion\<close> returns lies within \<open>[0, 25]\<close>.
  At \<open>winRate = 100\<close>, \<open>avgWin = 0\<close>, \<open>avgLoss = 1\<close> no guard applies (the guard tests
  \<open>winRate = 1\<close>), \<open>lossRatio\<close> is 0 and \<open>(1 - winProbability) / lossRatio\<close> is
  \<open>0 / 0\<close>: the function returns \<open>NaN\<close>, which is not a number of \<open>[0, 25]\<close>.
\<close>

theorem calculateKellyCriterion_NaN:
  "calculateKellyCriterion 100 0 1 = NaN"
  by (simp add: calculateKellyCriterion_def)

text \<open>On every other input the result is a number of \<open>[0, 25]\<close>: the clamp
  \<open>Math.max(0, Math.min(kelly * 50, 25))\<close> also brings an infinite \<open>kelly\<close> back.\<close>

lemma calculateKellyCriterion_range:
  assumes "\<not> (w = 100 \<and> aw = 0)"
  shows "\<exists>r. calculateKellyCriterion w aw al = Fin r \<and> 0 \<le> r \<and> r \<le> 25"
proof (cases "al = 0 \<or> w = 0 \<or> w = 1")
  case True
  then show ?thesis by (simp add: calculateKellyCriterion_def)
next
  case unguarded: False
  show ?thesis
  proof (cases "aw = 0")
    case True
    with assms have "1 - w / 100 \<noteq> 0" by simp
    then consider "1 - w / 100 > 0" | "1 - w / 100 < 0" by linarith
    then show ?thesis
      using unguarded True by cases (simp_all add: calculateKellyCriterion_def Let_def)
  next
    case False
    with unguarded have "aw / al \<noteq> 0" by simp
    then show ?thesis
      using unguarded by (simp add: calculateKellyCriterion_def Let_def min_def max_def)
  qed
qed

section \<open>The drawdown policy\<close>

text \<open>
  Claim C5: \<open>getAdjustedRiskForDrawdown\<close> is the step function that gives the whole of
  \<open>baseRisk\<close> below 5, 75% of it below 10, 50% below 15, 25% below 20, and 0
  from 20 on. A drawdown that is exactly a boundary takes the tier above it:
  \<open>getAdjustedRiskForDrawdown(1, 10) = 0.5\<close>, \<open>getAdjustedRiskForDrawdown(1, 20) = 0\<close>,
  \<open>getAdjustedRiskForDrawdown(1, 4.99) = 1\<close>.
\<close>

theorem getAdjustedRiskForDrawdown_tiers:
  "(d < 5 \<longrightarrow> getAdjustedRiskForDrawdown b d = b) \<and>
   (5 \<le> d \<and> d < 10 \<longrightarrow> getAdjustedRiskForDrawdown b d = b * 75 / 100) \<and>
   (10 \<le> d \<and> d < 15 \<longrightarrow> getAdjustedRiskForDrawdown b d = b * 50 / 100) \<and>
   (15 \<le> d \<and> d < 20 \<longrightarrow> getAdjustedRiskForDrawdown b d = b * 25 / 100) \<and>
   (20 \<le> d \<longrightarrow> getAdjustedRiskForDrawdown b d = 0) \<and>
   getAdjustedRiskForDrawdown 1 10 = 0.5 \<and>
   getAdjustedRiskForDrawdown 1 20 = 0 \<and>
   getAdjustedRiskForDrawdown 1 4.99 = 1"
  by (simp add: getAdjustedRiskForDrawdown_def)

theorem getAdjustedRiskForDrawdown_tiers_witness:
  "((3::real) < 5 \<and> getAdjustedRiskForDrawdown 2 3 = 2) \<and>
   ((5::real) \<le> 7 \<and> (7::real) < 10 \<and> getAdjustedRiskForDrawdown 2 7 = 2 * 75 / 100) \<and>
   ((10::real) \<le> 12 \<and> (12::real) < 15 \<and> getAdjustedRiskForDrawdown 2 12 = 2 * 50 / 100) \<and>
   ((15::real) \<le> 17 \<and> (17::real) < 20 \<and> getAdjustedRiskForDrawdown 2 17 = 2 * 25 / 100) \<and>
   ((20::real) \<le> 25 \<and> getAdjustedRiskForDrawdown 2 25 = 0)"
  using getAdjustedRiskForDrawdown_tiers [of 3 2] getAdjustedRiskForDrawdown_tiers [of 7 2]
    getAdjustedRiskForDrawdown_tiers [of 12 2] getAdjustedRiskForDrawdown_tiers [of 17 2]
    getAdjustedRiskForDrawdown_tiers [of 25 2]
  by simp

section \<open>The position sizer\<close>

subsection \<open>Rounding\<close>














subsection \<open>The quantity\<close>










section \<open>The portfolio update\<close>


lemma updatePortfolio_peakEquity:
  "peakEquity (updatePortfolio u p) =
     max (override (peakEquity p) (opt_peakEquity u))
       (override (currentEquity p) (opt_currentEquity u))"
  by (simp add: updatePortfolio_def spread_def Let_def)

lemma updatePortfolio_drawdown:
  "drawdown (updatePortfolio u p) =
     calculateDrawdown (override (currentEquity p) (opt_currentEquity u))
       (override (peakEquity p) (opt_peakEquity u))"
  by (simp add: updatePortfolio_def spread_def Let_def)

lemma updatePortfolio_maxDrawdown:
  "maxDrawdown (updatePortfolio u p) =
     max (override (maxDrawdown p) (opt_maxDrawdown u)) (drawdown (updatePortfolio u p))"
  by (simp add: updatePortfolio_def spread_def Let_def)

text \<open>
  Claim C2: on every portfolio update the recomputed drawdown is
  \<open>max(0, (peakEquity - currentEquity) / peakEquity \<times> 100)\<close>, and 0 when
  \<open>peakEquity \<le> 0\<close>; the stored drawdown is never negative, also when \<open>currentEquity\<close>
  exceeds the previous \<open>peakEquity\<close>. The source computes the drawdown from the peak of
  before the update and raises the peak afterwards, and nothing bounds it below: from the
  default portfolio, an update of \<open>currentEquity\<close> to 110000 stores the drawdown -10
  (and then the peak 110000).
\<close>

theorem updatePortfolio_negative_drawdown:
  "drawdown (updatePortfolio (no_updates\<lparr>opt_currentEquity := Some 110000\<rparr>) DEFAULT_PORTFOLIO) = - 10 \<and>
   peakEquity (updatePortfolio (no_updates\<lparr>opt_currentEquity := Some 110000\<rparr>) DEFAULT_PORTFOLIO) = 110000"
  by (simp add: updatePortfolio_drawdown updatePortfolio_peakEquity override_def no_updates_def
        DEFAULT_PORTFOLIO_def calculateDrawdown_def)



text \<open>Over any run of updates none of which sets \<open>maxDrawdown\<close>, it does not decrease.\<close>

lemma updatePortfolio_maxDrawdown_run:
  assumes "\<forall>u \<in> set us. opt_maxDrawdown u = None"
  shows "maxDrawdown p \<le> maxDrawdown (foldl (\<lambda>p u. updatePortfolio u p) p us)"
  using assms
proof (induction us arbitrary: p)
  case Nil
  then show ?case by simp
next
  case (Cons u us)
  have "maxDrawdown p \<le> maxDrawdown (updatePortfolio u p)"
    using Cons.prems by (simp add: updatePortfolio_maxDrawdown override_def)
  also have "\<dots> \<le> maxDrawdown (foldl (\<lambda>p u. updatePortfolio u p) (updatePortfolio u p) us)"
    using Cons.prems by (intro Cons.IH) simp
  finally show ?case by simp
qed

section \<open>The trade validator\<close>

lemma validateTrade_errors_only:
  "isValid (validateTrade rr rp l p) = (errors (validateTrade rr rp l p) = [])"
  by (simp add: validateTrade_def Let_def)

lemma validateTrade_low_riskReward:
  assumes "rp \<le> riskPerTrade l" and "PortfolioState.capital p \<noteq> 0"
    and "\<not> (dailyPnL p < 0 \<and> dailyLossLimit l \<le> \<bar>dailyPnL p\<bar> / PortfolioState.capital p * 100)"
    and "\<not> (weeklyPnL p < 0 \<and> weeklyLossLimit l \<le> \<bar>weeklyPnL p\<bar> / PortfolioState.capital p * 100)"
    and "\<not> (monthlyPnL p < 0 \<and> monthlyLossLimit l \<le> \<bar>monthlyPnL p\<bar> / PortfolioState.capital p * 100)"
    and "drawdown p \<le> 10" and "\<not> isTradingLocked p"
  shows "validateTrade 1.5 rp l p =
           \<lparr>isValid = False, errors = [RiskRewardBelowMinimum 1.5], warnings = []\<rparr>"
  using assms by (simp add: validateTrade_def Let_def)

lemma validateTrade_warning_does_not_block:
  "validateTrade 3 1 DEFAULT_RISK_LIMITS (DEFAULT_PORTFOLIO\<lparr>drawdown := 12\<rparr>) =
     \<lparr>isValid = True, errors = [], warnings = [DrawdownElevated 12]\<rparr>"
  by (simp add: validateTrade_def Let_def DEFAULT_RISK_LIMITS_def DEFAULT_PORTFOLIO_def)

text \<open>
  Claim C6: for every input of \<open>validateTrade\<close>, \<open>isValid\<close> is true exactly when the
  list of errors is empty, whatever the warnings are (a result with a warning and no error
  is valid). For \<open>riskReward = 1.5\<close>, with \<open>riskPercent\<close> within \<open>limits.riskPerTrade\<close>
  and a portfolio (of non-zero capital) with no loss limit breached, a drawdown of at most
  10 and trading not locked, the result is \<open>isValid = false\<close> with exactly one error, the
  risk-reward message, and no warning.
\<close>

theorem validateTrade_isValid:
  "isValid (validateTrade rr rp l p) = (errors (validateTrade rr rp l p) = []) \<and>
   validateTrade 3 1 DEFAULT_RISK_LIMITS (DEFAULT_PORTFOLIO\<lparr>drawdown := 12\<rparr>) =
     \<lparr>isValid = True, errors = [], warnings = [DrawdownElevated 12]\<rparr> \<and>
   (rp \<le> riskPerTrade l \<and> PortfolioState.capital p \<noteq> 0 \<and>
    \<not> (dailyPnL p < 0 \<and> dailyLossLimit l \<le> \<bar>dailyPnL p\<bar> / PortfolioState.capital p * 100) \<and>
    \<not> (weeklyPnL p < 0 \<and> weeklyLossLimit l \<le> \<bar>weeklyPnL p\<bar> / PortfolioState.capital p * 100) \<and>
    \<not> (monthlyPnL p < 0 \<and> monthlyLossLimit l \<le> \<bar>monthlyPnL p\<bar> / PortfolioState.capital p * 100) \<and>
    drawdown p \<le> 10 \<and> \<not> isTradingLocked p \<longrightarrow>
    validateTrade 1.5 rp l p =
      \<lparr>isValid = False, errors = [RiskRewardBelowMinimum 1.5], warnings = []\<rparr>)"
  using validateTrade_errors_only [of rr rp l p] validateTrade_low_riskReward [of rp l p]
    validateTrade_warning_does_not_block
  by blast

theorem validateTrade_isValid_witness:
  "1 \<le> riskPerTrade DEFAULT_RISK_LIMITS \<and> PortfolioState.capital DEFAULT_PORTFOLIO \<noteq> 0 \<and>
   \<not> dailyPnL DEFAULT_PORTFOLIO < 0 \<and> \<not> weeklyPnL DEFAULT_PORTFOLIO < 0 \<and>
   \<not> monthlyPnL DEFAULT_PORTFOLIO < 0 \<and> drawdown DEFAULT_PORTFOLIO \<le> 10 \<and>
   \<not> isTradingLocked DEFAULT_PORTFOLIO \<and>
   validateTrade 1.5 1 DEFAULT_RISK_LIMITS DEFAULT_PORTFOLIO =
     \<lparr>isValid = False, errors = [RiskRewardBelowMinimum 1.5], warnings = []\<rparr>"
  using validateTrade_isValid [of "1.5" 1 DEFAULT_RISK_LIMITS DEFAULT_PORTFOLIO]
  by (simp add: DEFAULT_RISK_LIMITS_def DEFAULT_PORTFOLIO_def)

section \<open>The compounding projector\<close>

lemma compounding_loop_stop:
  "n < m \<Longrightarrow> compounding_loop m n r cap cum acc = acc"
  by (subst compounding_loop.simps) simp

lemma compounding_loop_step:
  "m \<le> n \<Longrightarrow> compounding_loop m n r cap cum acc =
     compounding_loop (m + 1) n r (cap + cap * (r / 100)) (cum + cap * (r / 100))
       (acc @ [\<lparr>month = m, capital = cap + cap * (r / 100), profit = cap * (r / 100),
                cumulativeProfit = cum + cap * (r / 100)\<rparr>])"
  by (subst compounding_loop.simps) (simp add: Let_def)

lemma compounding_loop_acc:
  "compounding_loop m n r cap cum acc = acc @ compounding_loop m n r cap cum []"
proof (induction "nat (n + 1 - m)" arbitrary: m cap cum acc)
  case 0
  then have "n < m" by simp
  then show ?case by (simp add: compounding_loop_stop)
next
  case (Suc k)
  then have le: "m \<le> n" and k: "k = nat (n + 1 - (m + 1))" by simp_all
  let ?x = "\<lparr>month = m, capital = cap + cap * (r / 100), profit = cap * (r / 100),
             cumulativeProfit = cum + cap * (r / 100)\<rparr>"
  have "compounding_loop m n r cap cum acc =
          (acc @ [?x]) @ compounding_loop (m + 1) n r (cap + cap * (r / 100)) (cum + cap * (r / 100)) []"
    using Suc.hyps(1) [OF k, of _ _ "acc @ [?x]"] by (simp add: compounding_loop_step [OF le])
  moreover have "compounding_loop m n r cap cum [] =
          [?x] @ compounding_loop (m + 1) n r (cap + cap * (r / 100)) (cum + cap * (r / 100)) []"
    using Suc.hyps(1) [OF k, of _ _ "[?x]"] by (simp add: compounding_loop_step [OF le])
  ultimately show ?case by simp
qed

lemma compounding_loop_Cons:
  assumes "m \<le> n"
  shows "compounding_loop m n r cap cum [] =
     \<lparr>month = m, capital = cap + cap * (r / 100), profit = cap * (r / 100),
      cumulativeProfit = cum + cap * (r / 100)\<rparr>
     # compounding_loop (m + 1) n r (cap + cap * (r / 100)) (cum + cap * (r / 100)) []"
  using compounding_loop_acc [of "m + 1" n r _ _ "[_]"]
  by (simp add: compounding_loop_step [OF assms])

lemma compounding_loop_length:
  "length (compounding_loop m n r cap cum []) = nat (n + 1 - m)"
proof (induction "nat (n + 1 - m)" arbitrary: m cap cum)
  case 0
  then show ?case by (simp add: compounding_loop_stop)
next
  case (Suc k)
  then have le: "m \<le> n" and k: "k = nat (n + 1 - (m + 1))" by simp_all
  from Suc.hyps(1) [OF k] Suc.hyps(2) show ?case
    by (simp add: compounding_loop_Cons [OF le])
qed

lemma compounding_loop_months:
  "map month (compounding_loop m n r cap cum []) = [m..n]"
proof (induction "nat (n + 1 - m)" arbitrary: m cap cum)
  case 0
  then show ?case by (simp add: compounding_loop_stop)
next
  case (Suc k)
  then have le: "m \<le> n" and k: "k = nat (n + 1 - (m + 1))" by simp_all
  from Suc.hyps(1) [OF k] show ?case
    by (simp add: compounding_loop_Cons [OF le] upto_rec1 [OF le])
qed

lemma compounding_loop_compounds:
  "compounds_from r cap cum (compounding_loop m n r cap cum [])"
proof (induction "nat (n + 1 - m)" arbitrary: m cap cum)
  case 0
  then show ?case by (simp add: compounding_loop_stop)
next
  case (Suc k)
  then have le: "m \<le> n" and k: "k = nat (n + 1 - (m + 1))" by simp_all
  from Suc.hyps(1) [OF k] show ?case
    by (simp add: compounding_loop_Cons [OF le])
qed

text \<open>
  Claim C7: for every \<open>startCapital\<close>, \<open>monthlyReturnPercent\<close> and positive integer
  \<open>months\<close>, \<open>calculateCompounding\<close> returns exactly \<open>months\<close> snapshots, for the
  months 1 to \<open>months\<close> in this order; the profit of each month is the capital before it
  times \<open>rate / 100\<close>, and the capital grows by it. \<open>calculateCompounding(100000, 5, 3)\<close>
  has exactly 3 entries, of capital 105000, 110250 and 115762.5.
\<close>

theorem calculateCompounding_snapshots:
  "length (calculateCompounding s r n) = nat n \<and>
   map month (calculateCompounding s r n) = [1..n] \<and>
   compounds_from r s 0 (calculateCompounding s r n) \<and>
   map CompoundingProjection.capital (calculateCompounding 100000 5 3) = [105000, 110250, 115762.5]"
  by (simp add: calculateCompounding_def compounding_loop_length compounding_loop_months
        compounding_loop_compounds compounding_loop_Cons compounding_loop_stop)

section \<open>The streaks of the performance analyzer\<close>

text \<open>After the \<open>forEach\<close>, each of the two current streaks is the length of the run of
  its kind at the end of the list, where a trade with \<open>pnl \<le> 0\<close> is a loss step.\<close>

lemma streak_fold:
  "foldl streak_step (0, 0, 0, 0) xs = (mw, ml, cw, cl) \<Longrightarrow>
     cw = length (takeWhile (\<lambda>t. pnl_or_0 t > 0) (rev xs)) \<and>
     cl = length (takeWhile (\<lambda>t. pnl_or_0 t \<le> 0) (rev xs))"
proof (induction xs arbitrary: mw ml cw cl rule: rev_induct)
  case Nil
  then show ?case by simp
next
  case (snoc x xs)
  obtain mw' ml' cw' cl' where before: "foldl streak_step (0, 0, 0, 0) xs = (mw', ml', cw', cl')"
    by (metis prod_cases4)
  from snoc.IH [OF before] snoc.prems before show ?case
    by (auto simp: streak_step_def Let_def split: if_splits)
qed


lemma metrics_streakType:
  assumes "filter (\<lambda>t. status t = CLOSED \<and> pnl t \<noteq> None) ts = cs" and "cs \<noteq> []"
  shows "streakType (calculatePerformanceMetrics ts) =
           (if pnl_or_0 (last cs) > 0 then WIN
            else if pnl_or_0 (last cs) < 0 then LOSS else NONE)"
  using assms by (simp add: calculatePerformanceMetrics_def Let_def last_trade_def split: prod.splits)

lemma metrics_currentStreak:
  assumes "filter (\<lambda>t. status t = CLOSED \<and> pnl t \<noteq> None) ts = cs" and "cs \<noteq> []"
  shows "currentStreak (calculatePerformanceMetrics ts) =
           (if pnl_or_0 (last cs) > 0 then length (takeWhile (\<lambda>t. pnl_or_0 t > 0) (rev cs))
            else if pnl_or_0 (last cs) < 0 then length (takeWhile (\<lambda>t. pnl_or_0 t \<le> 0) (rev cs))
            else 0)"
proof -
  obtain mw ml cw cl where f: "foldl streak_step (0, 0, 0, 0) cs = (mw, ml, cw, cl)"
    by (metis prod_cases4)
  from streak_fold [OF f] f assms show ?thesis
    by (simp add: calculatePerformanceMetrics_def Let_def last_trade_def)
qed

text \<open>
  Claim C3, as the source has it: for a trade list whose closed trades are not empty, a last
  closed trade with \<open>pnl > 0\<close> gives the streak type \<open>WIN\<close> and the length of the run of
  wins at the end; one with \<open>pnl < 0\<close> gives \<open>LOSS\<close> and the length of the run of trades
  with \<open>pnl \<le> 0\<close> at the end; one with \<open>pnl\<close> exactly 0 gives \<open>NONE\<close> and the
  current streak 0.
\<close>

theorem calculatePerformanceMetrics_streak:
  fixes ts :: "Trade list"
  defines "cs \<equiv> filter (\<lambda>t. status t = CLOSED \<and> pnl t \<noteq> None) ts"
  assumes "cs \<noteq> []"
  shows "(pnl_or_0 (last cs) > 0 \<longrightarrow>
            streakType (calculatePerformanceMetrics ts) = WIN \<and>
            currentStreak (calculatePerformanceMetrics ts) =
              length (takeWhile (\<lambda>t. pnl_or_0 t > 0) (rev cs))) \<and>
         (pnl_or_0 (last cs) < 0 \<longrightarrow>
            streakType (calculatePerformanceMetrics ts) = LOSS \<and>
            currentStreak (calculatePerformanceMetrics ts) =
              length (takeWhile (\<lambda>t. pnl_or_0 t \<le> 0) (rev cs))) \<and>
         (pnl_or_0 (last cs) = 0 \<longrightarrow>
            streakType (calculatePerformanceMetrics ts) = NONE \<and>
            currentStreak (calculatePerformanceMetrics ts) = 0)"
  using metrics_streakType [of ts cs] metrics_currentStreak [of ts cs] assms
  by simp


theorem calculatePerformanceMetrics_streak_witness:
  "(filter (\<lambda>t. status t = CLOSED \<and> pnl t \<noteq> None)
      [closed_trade (- 30), closed_trade 50, closed_trade 20] \<noteq> [] \<and>
    0 < pnl_or_0 (closed_trade 20) \<and>
    streakType (calculatePerformanceMetrics
      [closed_trade (- 30), closed_trade 50, closed_trade 20]) = WIN \<and>
    currentStreak (calculatePerformanceMetrics
      [closed_trade (- 30), closed_trade 50, closed_trade 20]) = 2) \<and>
   (pnl_or_0 (closed_trade (- 30)) < 0 \<and>
    streakType (calculatePerformanceMetrics
      [closed_trade 50, closed_trade 0, closed_trade (- 30)]) = LOSS \<and>
    currentStreak (calculatePerformanceMetrics
      [closed_trade 50, closed_trade 0, closed_trade (- 30)]) = 2) \<and>
   (pnl_or_0 (closed_trade 0) = 0 \<and>
    streakType (calculatePerformanceMetrics [closed_trade 50, closed_trade 0]) = NONE \<and>
    currentStreak (calculatePerformanceMetrics [closed_trade 50, closed_trade 0]) = 0)"
  using calculatePerformanceMetrics_streak [of "[closed_trade (- 30), closed_trade 50, closed_trade 20]"]
    calculatePerformanceMetrics_streak [of "[closed_trade 50, closed_trade 0, closed_trade (- 30)]"]
    calculatePerformanceMetrics_streak [of "[closed_trade 50, closed_trade 0]"]
  by (simp add: closed_trade_def open_trade_def pnl_or_0_def)

text \<open>
  Claim C3, as it is stated, gives \<open>LOSS\<close> with the length of the loss run also for a last
  closed trade with \<open>pnl\<close> exactly 0. After a loss of 30 and a trade closed at 0 the loss
  run at the end has length 2, but the source reports \<open>NONE\<close> and 0.
\<close>

theorem calculatePerformanceMetrics_zero_pnl_last:
  "pnl_or_0 (last [closed_trade (- 30), closed_trade 0]) \<le> 0 \<and>
   length (takeWhile (\<lambda>t. pnl_or_0 t \<le> 0) (rev [closed_trade (- 30), closed_trade 0])) = 2 \<and>
   streakType (calculatePerformanceMetrics [closed_trade (- 30), closed_trade 0]) = NONE \<and>
   currentStreak (calculatePerformanceMetrics [closed_trade (- 30), closed_trade 0]) = 0"
  by (simp add: calculatePerformanceMetrics_def Let_def last_trade_def pnl_or_0_def
        closed_trade_def open_trade_def streak_step_def)

section \<open>Closing a trade\<close>

lemma find_map_same_test:
  assumes "\<And>x. P (f x) = P x"
  shows "find P (map f xs) = map_option f (find P xs)"
  using assms by (induction xs) simp_all

lemma closeTrade_trades:
  "trades (closeTrade i x st) =
     map (\<lambda>t. if tradeId t \<noteq> i then t
              else t\<lparr>exitPrice := Some x,
                     pnl := Some (if side t = LONG
                                  then (x - entryPrice t) * Trade.quantity t
                                  else (entryPrice t - x) * Trade.quantity t),
                     status := CLOSED\<rparr>) (trades st)"
  by (simp add: closeTrade_def Let_def split: option.splits)

lemma closeTrade_falsy_pnl:
  assumes "find (\<lambda>t. tradeId t = i) (trades (closeTrade i x st)) = Some t'" and "pnl t' = Some 0"
  shows "portfolio (closeTrade i x st) = portfolio st \<and> session (closeTrade i x st) = session st"
proof -
  let ?prev = "map (\<lambda>t. if tradeId t \<noteq> i then t
              else t\<lparr>exitPrice := Some x,
                     pnl := Some (if side t = LONG
                                  then (x - entryPrice t) * Trade.quantity t
                                  else (entryPrice t - x) * Trade.quantity t),
                     status := CLOSED\<rparr>) (trades st)"
  from assms(1) have f: "find (\<lambda>t. tradeId t = i) ?prev = Some t'"
    by (simp only: closeTrade_trades)
  have "closeTrade i x st =
     (case find (\<lambda>t. tradeId t = i) ?prev of
        None \<Rightarrow> st\<lparr>trades := ?prev\<rparr>
      | Some trade \<Rightarrow>
          (case pnl trade of
             None \<Rightarrow> st\<lparr>trades := ?prev\<rparr>
           | Some trade_pnl \<Rightarrow>
               if trade_pnl \<noteq> 0 then closeTrade i x st else st\<lparr>trades := ?prev\<rparr>))"
    by (simp add: closeTrade_def Let_def cong: option.case_cong if_cong split: option.splits)
  also have "\<dots> = st\<lparr>trades := ?prev\<rparr>"
    by (simp only: f assms(2) option.case) simp
  finally show ?thesis by simp
qed

text \<open>A trade closed at a loss does update the portfolio and the session.\<close>

lemma closeTrade_loss_updates:
  "dailyPnL (portfolio (closeTrade ''t1'' 90
     \<lparr>portfolio = DEFAULT_PORTFOLIO, trades = [open_trade], session = DEFAULT_SESSION\<rparr>)) = - 100 \<and>
   consecutiveLosses (session (closeTrade ''t1'' 90
     \<lparr>portfolio = DEFAULT_PORTFOLIO, trades = [open_trade], session = DEFAULT_SESSION\<rparr>)) = 1"
  by (simp add: closeTrade_def Let_def open_trade_def DEFAULT_PORTFOLIO_def DEFAULT_SESSION_def
        updatePortfolio_def spread_def override_def no_updates_def calculateDrawdown_def)

text \<open>
  Claim C10: when the trade that \<open>closeTrade\<close> closes has a computed \<open>pnl\<close> of exactly 0
  (the exit price is the entry price, or the quantity is 0), its record is marked
  \<open>CLOSED\<close> with the exit price and \<open>pnl = 0\<close>, and the portfolio (so \<open>dailyPnL\<close>,
  \<open>weeklyPnL\<close>, \<open>monthlyPnL\<close> and \<open>currentEquity\<close>) and the session (so the counter of
  consecutive losses) are left as they were: \<open>if (trade?.pnl)\<close> takes 0 as false.
\<close>

theorem closeTrade_zero_pnl:
  assumes found: "find (\<lambda>t. tradeId t = i) (trades st) = Some t"
    and zero: "(x - entryPrice t) * Trade.quantity t = 0"
  shows "find (\<lambda>t. tradeId t = i) (trades (closeTrade i x st)) =
           Some (t\<lparr>exitPrice := Some x, pnl := Some 0, status := CLOSED\<rparr>) \<and>
         portfolio (closeTrade i x st) = portfolio st \<and>
         session (closeTrade i x st) = session st"
proof -
  let ?close = "\<lambda>t. if tradeId t \<noteq> i then t
              else t\<lparr>exitPrice := Some x,
                     pnl := Some (if side t = LONG
                                  then (x - entryPrice t) * Trade.quantity t
                                  else (entryPrice t - x) * Trade.quantity t),
                     status := CLOSED\<rparr>"
  from found have id: "tradeId t = i"
    by (auto simp: find_Some_iff)
  from zero have zero': "(entryPrice t - x) * Trade.quantity t = 0"
    by auto
  have "find (\<lambda>t. tradeId t = i) (trades (closeTrade i x st)) =
          find (\<lambda>t. tradeId t = i) (map ?close (trades st))"
    by (simp only: closeTrade_trades)
  also have "\<dots> = map_option ?close (find (\<lambda>t. tradeId t = i) (trades st))"
    by (rule find_map_same_test) simp
  also have "\<dots> = Some (?close t)"
    by (simp only: found option.map)
  also have "?close t = t\<lparr>exitPrice := Some x, pnl := Some 0, status := CLOSED\<rparr>"
    using id zero zero' by simp
  finally have f: "find (\<lambda>t. tradeId t = i) (trades (closeTrade i x st)) =
      Some (t\<lparr>exitPrice := Some x, pnl := Some 0, status := CLOSED\<rparr>)" .
  from closeTrade_falsy_pnl [OF f] f show ?thesis by simp
qed

theorem closeTrade_zero_pnl_witness:
  "find (\<lambda>t. tradeId t = ''t1'')
     (trades \<lparr>portfolio = DEFAULT_PORTFOLIO, trades = [open_trade], session = DEFAULT_SESSION\<rparr>) =
     Some open_trade \<and>
   (100 - entryPrice open_trade) * Trade.quantity open_trade = 0 \<and>
   trades (closeTrade ''t1'' 100
     \<lparr>portfolio = DEFAULT_PORTFOLIO, trades = [open_trade], session = DEFAULT_SESSION\<rparr>) =
     [open_trade\<lparr>exitPrice := Some 100, pnl := Some 0, status := CLOSED\<rparr>] \<and>
   portfolio (closeTrade ''t1'' 100
     \<lparr>portfolio = DEFAULT_PORTFOLIO, trades = [open_trade], session = DEFAULT_SESSION\<rparr>) =
     DEFAULT_PORTFOLIO \<and>
   session (closeTrade ''t1'' 100
     \<lparr>portfolio = DEFAULT_PORTFOLIO, trades = [open_trade], session = DEFAULT_SESSION\<rparr>) =
     DEFAULT_SESSION"
proof -
  let ?st = "\<lparr>portfolio = DEFAULT_PORTFOLIO, trades = [open_trade], session = DEFAULT_SESSION\<rparr>"
  have found: "find (\<lambda>t. tradeId t = ''t1'') (trades ?st) = Some open_trade"
    by (simp add: open_trade_def)
  have zero: "(100 - entryPrice open_trade) * Trade.quantity open_trade = 0"
    by (simp add: open_trade_def)
  have tr: "trades (closeTrade ''t1'' 100 ?st) =
     [open_trade\<lparr>exitPrice := Some 100, pnl := Some 0, status := CLOSED\<rparr>]"
    by (simp add: closeTrade_trades open_trade_def)
  from closeTrade_zero_pnl [OF found zero] found zero tr show ?thesis by simp
qed

end
